theory Spec2Isabelle
  imports Complex_Main
begin

section \<open>Conventions of the embedding\<close>

text \<open>
  The repository carries two generations of the same models side by side: the TypeScript
  models \<^verbatim>\<open>ExamAttempt\<close>, \<^verbatim>\<open>Question\<close> and \<^verbatim>\<open>Exam\<close>
  (statuses written \<^verbatim>\<open>in_progress\<close>), and the JavaScript models \<^verbatim>\<open>Attempt\<close>,
  \<^verbatim>\<open>Question\<close> and \<^verbatim>\<open>Exam\<close> (statuses written \<^verbatim>\<open>in-progress\<close>) with the
  Express routes that use them. Both are embedded. Since the two generations share most field
  names, every record field carries a short prefix naming its model:
  \<^verbatim>\<open>q_\<close>/\<^verbatim>\<open>o_\<close> (TypeScript question and option), \<^verbatim>\<open>ea_\<close>/\<^verbatim>\<open>an_\<close>
  (TypeScript attempt and answer), \<^verbatim>\<open>ex_\<close>/\<^verbatim>\<open>s_\<close> (TypeScript exam and settings),
  \<^verbatim>\<open>jq_\<close>, \<^verbatim>\<open>je_\<close>, \<^verbatim>\<open>ja_\<close>, \<^verbatim>\<open>jn_\<close> (JavaScript question, exam, attempt
  and answer). Functions keep the names of the source.

  JavaScript numbers are modelled as exact rationals, dates as integers (milliseconds), object
  identifiers as natural numbers (the value of their twelve bytes, below \<open>16 ^ 24\<close>). A nullable
  field is an \<open>option\<close>. Of each schema the fields are kept that the embedded functions read or
  write.
\<close>

type_synonym oid = nat
type_synonym date = int

subsection \<open>Identifiers and their text\<close>

text \<open>
  An object identifier has twelve bytes. \<^verbatim>\<open>toString()\<close> writes it as 24 hexadecimal digits
  with the letters in lower case. A request carries an identifier as text; the validator
  \<^verbatim>\<open>isMongoId()\<close> and the cast to an identifier accept 24 hexadecimal digits with letters in
  either case, and for any other text the cast is taken to fail.
\<close>

definition hexChar :: "nat \<Rightarrow> char" where
  "hexChar n = ''0123456789abcdef'' ! n"

fun hexString :: "nat \<Rightarrow> nat \<Rightarrow> string" where
  "hexString 0 n = []"
| "hexString (Suc k) n = hexString k (n div 16) @ [hexChar (n mod 16)]"

definition toString :: "oid \<Rightarrow> string" where
  "toString i = hexString 24 i"

definition hexValue :: "char \<Rightarrow> nat option" where
  "hexValue c =
     map_of (zip ''0123456789abcdefABCDEF''
                 [0, 1, 2, 3, 4, 5, 6, 7, 8, 9, 10, 11, 12, 13, 14, 15, 10, 11, 12, 13, 14, 15]) c"

fun parseHex :: "nat \<Rightarrow> string \<Rightarrow> nat option" where
  "parseHex acc [] = Some acc"
| "parseHex acc (c # cs) =
     (case hexValue c of None \<Rightarrow> None | Some v \<Rightarrow> parseHex (acc * 16 + v) cs)"

definition castObjectId :: "string \<Rightarrow> oid option" where
  "castObjectId s = (if length s = 24 then parseHex 0 s else None)"

subsection \<open>Values\<close>

text \<open>The values a request or a \<^verbatim>\<open>Mixed\<close> field can hold: the source documents strings,
  arrays of strings and booleans.\<close>

datatype jsval = VUndefined | VNull | VBool bool | VStr string | VArr "string list"

text \<open>A field of a request body that is stored under a path of type \<^verbatim>\<open>Number\<close>: absent (or
  falsy and not a number), a value that casts to the given number, or a value that does not cast
  to a number, for which the save fails.\<close>

datatype bodyNum = NoNum | Num rat | NonNumeric

text \<open>\<^verbatim>\<open>x || d\<close> on numbers: the default replaces a falsy (zero) value.\<close>

definition or_num :: "rat \<Rightarrow> rat \<Rightarrow> rat" where
  "or_num x d = (if x = 0 then d else x)"

text \<open>\<^verbatim>\<open>field || 0\<close> on such a field of the body, as the number that is stored.\<close>

definition bodyNumOr0 :: "bodyNum \<Rightarrow> rat" where
  "bodyNumOr0 t = (case t of Num n \<Rightarrow> or_num n 0 | _ \<Rightarrow> 0)"

text \<open>\<^verbatim>\<open>Math.round\<close>: the nearest integer, a tie going up.\<close>

definition Math_round :: "rat \<Rightarrow> rat" where
  "Math_round x = of_int \<lfloor>x + 1 / 2\<rfloor>"

subsection \<open>String methods\<close>

text \<open>Strings are modelled over the ASCII characters: \<^verbatim>\<open>toLowerCase\<close> maps the letters A to Z,
  and white space is the blank, the tabulators, the line feed, the form feed and the carriage
  return.\<close>

definition lowerChar :: "char \<Rightarrow> char" where
  "lowerChar c =
     (case map_of (zip ''ABCDEFGHIJKLMNOPQRSTUVWXYZ'' ''abcdefghijklmnopqrstuvwxyz'') c of
        None \<Rightarrow> c
      | Some d \<Rightarrow> d)"

definition toLowerCase :: "string \<Rightarrow> string" where
  "toLowerCase s = map lowerChar s"

definition isSpace :: "char \<Rightarrow> bool" where
  "isSpace c = (c \<in> set [CHR 0x20, CHR 0x09, CHR 0x0A, CHR 0x0B, CHR 0x0C, CHR 0x0D])"

definition trim :: "string \<Rightarrow> string" where
  "trim s = rev (dropWhile isSpace (rev (dropWhile isSpace s)))"

text \<open>\<^verbatim>\<open>s.replace(/\s+/g, ' ')\<close>: every maximal run of white space becomes one blank.\<close>

function replaceSpaces :: "string \<Rightarrow> string" where
  "replaceSpaces [] = []"
| "replaceSpaces (c # cs) =
     (if isSpace c then CHR 0x20 # replaceSpaces (dropWhile isSpace cs)
      else c # replaceSpaces cs)"
  by pat_completeness auto
termination
  by (relation "measure length") (auto simp: length_dropWhile_le le_imp_less_Suc)

section \<open>The TypeScript models\<close>

subsection \<open>Question (TypeScript model)\<close>

datatype questionType = mcq_single | mcq_multiple | true_false | short_answer | essay

record questionOption =
  o_text :: string
  o_isCorrect :: bool

record question =
  q_type :: questionType
  q_options :: "questionOption list"
  q_correctAnswers :: "string list"
  q_marks :: rat
  q_negativeMarks :: rat

text \<open>
  \<^verbatim>\<open>isCorrect(answer)\<close>. The result is \<open>Some b\<close> for a boolean; \<open>None\<close> stands for the
  \<^verbatim>\<open>undefined\<close> that \<^verbatim>\<open>correctOption && ...\<close> yields when no option is flagged.
\<close>

definition isCorrect :: "question \<Rightarrow> jsval \<Rightarrow> bool option" where
  "isCorrect q answer =
     (case q_type q of
        mcq_single \<Rightarrow>
          (case answer of
             VStr s \<Rightarrow>
               if s = [] then Some False
               else (case find o_isCorrect (q_options q) of
                       None \<Rightarrow> None
                     | Some correctOption \<Rightarrow> Some (o_text correctOption = s))
           | _ \<Rightarrow> Some False)
      | mcq_multiple \<Rightarrow>
          (case answer of
             VArr xs \<Rightarrow>
               (let correctOptions = map o_text (filter o_isCorrect (q_options q))
                in if length xs \<noteq> length correctOptions then Some False
                   else Some (list_all (\<lambda>correct. correct \<in> set xs) correctOptions))
           | _ \<Rightarrow> Some False)
      | true_false \<Rightarrow>
          (case answer of
             VBool b \<Rightarrow>
               (let correctBool =
                      (case find o_isCorrect (q_options q) of
                         None \<Rightarrow> False
                       | Some opt \<Rightarrow> o_text opt = ''True'')
                in Some (b = correctBool))
           | _ \<Rightarrow> Some False)
      | short_answer \<Rightarrow>
          (case answer of
             VStr s \<Rightarrow>
               if s = [] then Some False
               else Some (list_ex (\<lambda>correct. trim (toLowerCase s) = trim (toLowerCase correct))
                            (q_correctAnswers q))
           | _ \<Rightarrow> Some False)
      | essay \<Rightarrow> Some False)"

definition calculateMarks :: "question \<Rightarrow> jsval \<Rightarrow> rat" where
  "calculateMarks q answer =
     (if isCorrect q answer = Some True then q_marks q
      else if q_negativeMarks q > 0 then - q_negativeMarks q
      else 0)"

subsection \<open>Exam (TypeScript model)\<close>

record examSettings =
  s_maxAttempts :: rat
  s_allowRetake :: bool
  s_negativeMarking :: bool
  s_negativeMarkingPercentage :: rat

record exam =
  ex_id :: oid
  ex_passMark :: rat
  ex_totalMarks :: rat
  ex_duration :: rat
  ex_settings :: examSettings

subsection \<open>ExamAttempt (TypeScript model, models/ExamAttempt.ts)\<close>

datatype attemptStatus = in_progress | submitted | auto_submitted | terminated | abandoned

record answer =
  an_questionId :: oid
  an_answer :: jsval
  an_isCorrect :: bool
  an_marksAwarded :: rat

record examAttempt =
  ea_examId :: oid
  ea_studentId :: oid
  ea_status :: attemptStatus
  ea_startTime :: date
  ea_endTime :: "date option"
  ea_submittedAt :: "date option"
  ea_timeTaken :: rat
  ea_score :: rat
  ea_percentage :: rat
  ea_totalMarks :: rat
  ea_passed :: bool
  ea_answers :: "answer list"

definition calculateScore :: "examAttempt \<Rightarrow> rat" where
  "calculateScore a =
     (if ea_answers a = [] then 0
      else foldl (\<lambda>total ans. total + or_num (an_marksAwarded ans) 0) 0 (ea_answers a))"

definition calculatePercentage :: "examAttempt \<Rightarrow> rat" where
  "calculatePercentage a =
     (if ea_totalMarks a = 0 then 0
      else Math_round ((ea_score a / ea_totalMarks a) * 100))"

text \<open>
  \<^verbatim>\<open>isPassed\<close> reads \<^verbatim>\<open>this.exam?.passMark || 50\<close>. The first argument is what
  \<^verbatim>\<open>this.exam\<close> holds. The attempt schema has the path \<^verbatim>\<open>examId\<close> only, no path
  \<^verbatim>\<open>exam\<close> and no pass mark of its own, and nothing in the source assigns
  \<^verbatim>\<open>exam\<close>: on an attempt as the schema makes it the argument is \<open>None\<close>.
\<close>

definition isPassed :: "exam option \<Rightarrow> examAttempt \<Rightarrow> bool" where
  "isPassed populatedExam a =
     (let passMark = (case populatedExam of None \<Rightarrow> 50 | Some e \<Rightarrow> or_num (ex_passMark e) 50)
      in ea_percentage a \<ge> passMark)"

text \<open>The pre-save hook, in the order of its four blocks; \<open>now\<close> is \<^verbatim>\<open>new Date()\<close>.\<close>

definition setTimeTaken :: "examAttempt \<Rightarrow> examAttempt" where
  "setTimeTaken a =
     (case ea_endTime a of
        None \<Rightarrow> a
      | Some e \<Rightarrow> a\<lparr>ea_timeTaken := of_int ((e - ea_startTime a) div 1000)\<rparr>)"

definition setScore :: "examAttempt \<Rightarrow> examAttempt" where
  "setScore a =
     (if ea_answers a \<noteq> [] then
        (let a1 = a\<lparr>ea_score := calculateScore a\<rparr>
         in a1\<lparr>ea_percentage := calculatePercentage a1\<rparr>)
      else a)"

definition setPassed :: "exam option \<Rightarrow> examAttempt \<Rightarrow> examAttempt" where
  "setPassed populatedExam a =
     (if ea_percentage a > 0 then a\<lparr>ea_passed := isPassed populatedExam a\<rparr> else a)"

definition setSubmitted :: "date \<Rightarrow> examAttempt \<Rightarrow> examAttempt" where
  "setSubmitted now a =
     (if ea_status a = submitted \<or> ea_status a = auto_submitted then
        (let a1 = (if ea_submittedAt a = None then a\<lparr>ea_submittedAt := Some now\<rparr> else a)
         in if ea_endTime a1 = None then a1\<lparr>ea_endTime := Some now\<rparr> else a1)
      else a)"

definition pre_save :: "exam option \<Rightarrow> date \<Rightarrow> examAttempt \<Rightarrow> examAttempt" where
  "pre_save populatedExam now a =
     setSubmitted now (setPassed populatedExam (setScore (setTimeTaken a)))"

text \<open>\<^verbatim>\<open>getRemainingAttempts\<close> counts the student's attempts at this exam whose status is
  \<^verbatim>\<open>submitted\<close> or \<^verbatim>\<open>auto_submitted\<close>.\<close>

definition getRemainingAttempts :: "examAttempt list \<Rightarrow> exam \<Rightarrow> oid \<Rightarrow> rat" where
  "getRemainingAttempts collection e studentId =
     (let attempts = length (filter (\<lambda>a. ea_examId a = ex_id e \<and> ea_studentId a = studentId \<and>
                                        (ea_status a = submitted \<or> ea_status a = auto_submitted))
                               collection)
      in max 0 (s_maxAttempts (ex_settings e) - of_nat attempts))"

section \<open>The JavaScript models\<close>

subsection \<open>Question (JavaScript model, models/Question.js)\<close>

datatype questionTypeJ = McqSingle | McqMultiple | TrueFalse | ShortAnswer

record questionJ =
  jq_id :: oid
  jq_exam :: oid
  jq_type :: questionTypeJ
  jq_correctAnswer :: jsval
  jq_points :: rat
  jq_isActive :: bool

text \<open>\<^verbatim>\<open>String(v)\<close>.\<close>

fun joinComma :: "string list \<Rightarrow> string" where
  "joinComma [] = []"
| "joinComma [x] = x"
| "joinComma (x # y # ys) = x @ '','' @ joinComma (y # ys)"

fun String_js :: "jsval \<Rightarrow> string" where
  "String_js VUndefined = ''undefined''"
| "String_js VNull = ''null''"
| "String_js (VBool b) = (if b then ''true'' else ''false'')"
| "String_js (VStr s) = s"
| "String_js (VArr xs) = joinComma xs"

text \<open>\<^verbatim>\<open>a === b\<close> between a stored value and a request value: two arrays are two
  distinct objects and never identical.\<close>

fun strict_eq :: "jsval \<Rightarrow> jsval \<Rightarrow> bool" where
  "strict_eq VUndefined VUndefined = True"
| "strict_eq VNull VNull = True"
| "strict_eq (VBool a) (VBool b) = (a = b)"
| "strict_eq (VStr a) (VStr b) = (a = b)"
| "strict_eq _ _ = False"

definition normalizeAnswer :: "jsval \<Rightarrow> string" where
  "normalizeAnswer answer = replaceSpaces (trim (toLowerCase (String_js answer)))"

definition validateAnswer :: "questionJ \<Rightarrow> jsval \<Rightarrow> bool" where
  "validateAnswer q studentAnswer =
     (case jq_type q of
        McqSingle \<Rightarrow> strict_eq (jq_correctAnswer q) studentAnswer
      | McqMultiple \<Rightarrow>
          (case studentAnswer of
             VArr sa \<Rightarrow>
               (case jq_correctAnswer q of
                  VArr ca \<Rightarrow> length sa = length ca \<and> list_all (\<lambda>ans. ans \<in> set ca) sa
                | _ \<Rightarrow> False)
           | _ \<Rightarrow> False)
      | TrueFalse \<Rightarrow> strict_eq (jq_correctAnswer q) studentAnswer
      | ShortAnswer \<Rightarrow>
          (case jq_correctAnswer q of
             VArr ca \<Rightarrow>
               list_ex (\<lambda>correctAns. normalizeAnswer (VStr correctAns) = normalizeAnswer studentAnswer) ca
           | c \<Rightarrow> normalizeAnswer c = normalizeAnswer studentAnswer))"

subsection \<open>Attempt (JavaScript model): its schema\<close>

datatype statusJ = InProgress | Submitted | Graded | Abandoned

record answerJ =
  jn_question :: oid
  jn_studentAnswer :: jsval
  jn_isCorrect :: "bool option"
  jn_manuallyGraded :: bool
  jn_scoreAwarded :: rat
  jn_timeSpent :: rat
  jn_teacherFeedback :: "string option"

record attemptJ =
  ja_id :: oid
  ja_student :: oid
  ja_exam :: oid
  ja_answers :: "answerJ list"
  ja_startedAt :: date
  ja_submittedAt :: "date option"
  ja_timeRemaining :: rat
  ja_totalScore :: rat
  ja_maxPossibleScore :: rat
  ja_percentage :: "rat option"
  ja_passed :: bool
  ja_status :: statusJ
  ja_ipAddress :: string
  ja_userAgent :: string

subsection \<open>Exam (JavaScript model)\<close>

record examJ =
  je_id :: oid
  je_duration :: rat
  je_availableFrom :: date
  je_availableTo :: date
  je_passMark :: rat
  je_maxAttempts :: rat
  je_showResults :: bool
  je_allowRetakes :: bool

subsection \<open>Attempt (JavaScript model): its methods\<close>

text \<open>
  \<^verbatim>\<open>calculateScores\<close> reads \<^verbatim>\<open>answer.question?.points\<close> and
  \<^verbatim>\<open>this.exam?.passMark\<close>: both are there only where the caller populated the reference.
  The two arguments give the populated documents, \<open>None\<close> where the reference is a bare identifier.
\<close>

definition calculateScores :: "examJ option \<Rightarrow> (oid \<Rightarrow> questionJ option) \<Rightarrow> attemptJ \<Rightarrow> attemptJ" where
  "calculateScores populatedExam populatedQuestion a =
     (let totalScore = foldl (\<lambda>t ans. t + jn_scoreAwarded ans) 0 (ja_answers a);
          maxPossibleScore =
            foldl (\<lambda>m ans. m + (case populatedQuestion (jn_question ans) of
                                   None \<Rightarrow> 0
                                 | Some q \<Rightarrow> or_num (jq_points q) 0)) 0 (ja_answers a);
          percentage = (if maxPossibleScore > 0 then (totalScore / maxPossibleScore) * 100 else 0)
      in a\<lparr>ja_totalScore := totalScore,
            ja_maxPossibleScore := maxPossibleScore,
            ja_percentage := Some percentage,
            ja_passed := (percentage \<ge> (case populatedExam of
                                            None \<Rightarrow> 60
                                          | Some e \<Rightarrow> or_num (je_passMark e) 60))\<rparr>)"

definition pre_save_Attempt :: "examJ option \<Rightarrow> (oid \<Rightarrow> questionJ option) \<Rightarrow> attemptJ \<Rightarrow> attemptJ" where
  "pre_save_Attempt populatedExam populatedQuestion a =
     (if ja_answers a \<noteq> [] \<and> ja_status a \<noteq> InProgress
      then calculateScores populatedExam populatedQuestion a
      else a)"

text \<open>The virtual \<^verbatim>\<open>duration\<close>.\<close>

definition duration :: "attemptJ \<Rightarrow> int option" where
  "duration a =
     (case ja_submittedAt a of
        None \<Rightarrow> None
      | Some s \<Rightarrow> Some ((s - ja_startedAt a) div 1000))"

subsection \<open>The collections\<close>

record db =
  db_exams :: "examJ list"
  db_questions :: "questionJ list"
  db_attempts :: "attemptJ list"
  db_nextId :: oid

definition findExam :: "db \<Rightarrow> oid \<Rightarrow> examJ option" where
  "findExam d i = find (\<lambda>e. je_id e = i) (db_exams d)"

definition findQuestion :: "db \<Rightarrow> oid \<Rightarrow> questionJ option" where
  "findQuestion d i = find (\<lambda>q. jq_id q = i) (db_questions d)"

text \<open>Saving a loaded document replaces the stored document of the same \<^verbatim>\<open>_id\<close>; saving
  a new document appends it under a fresh \<^verbatim>\<open>_id\<close>.\<close>

definition updateAttempt :: "attemptJ \<Rightarrow> db \<Rightarrow> db" where
  "updateAttempt a d =
     d\<lparr>db_attempts := map (\<lambda>x. if ja_id x = ja_id a then a else x) (db_attempts d)\<rparr>"

definition insertAttempt :: "attemptJ \<Rightarrow> db \<Rightarrow> db" where
  "insertAttempt a d = d\<lparr>db_attempts := db_attempts d @ [a], db_nextId := Suc (db_nextId d)\<rparr>"

text \<open>The virtual \<^verbatim>\<open>isAvailable\<close> and the method \<^verbatim>\<open>canUserTakeExam\<close>;
  \<open>None\<close> is \<^verbatim>\<open>{ canTake: true }\<close>, \<open>Some reason\<close> a refusal.\<close>

definition isAvailable :: "date \<Rightarrow> examJ \<Rightarrow> bool" where
  "isAvailable now e = (now \<ge> je_availableFrom e \<and> now \<le> je_availableTo e)"

definition attemptCount :: "db \<Rightarrow> examJ \<Rightarrow> oid \<Rightarrow> nat" where
  "attemptCount d e userId =
     length (filter (\<lambda>a. ja_exam a = je_id e \<and> ja_student a = userId \<and>
                         (ja_status a = Submitted \<or> ja_status a = Graded))
               (db_attempts d))"

definition canUserTakeExam :: "db \<Rightarrow> date \<Rightarrow> examJ \<Rightarrow> oid \<Rightarrow> string option" where
  "canUserTakeExam d now e userId =
     (if \<not> isAvailable now e then Some ''Exam is not available at this time''
      else if of_nat (attemptCount d e userId) \<ge> je_maxAttempts e \<and> \<not> je_allowRetakes e
           then Some ''Maximum attempts reached''
      else None)"

section \<open>The routes\<close>

text \<open>
  A handler returns \<open>Inl\<close> of the status and message it answers with when it refuses, and
  \<open>Inr\<close> of the new collections and its answer when it succeeds; a refusing handler has written
  nothing. Failures of the persistence layer itself are not modelled.
\<close>

datatype failure = Failure nat string

subsection \<open>POST /:id/start (routes/exams.js)\<close>

record startResponse =
  st_attempt :: attemptJ
  st_exam :: examJ
  st_timeRemaining :: rat

definition newAttempt :: "oid \<Rightarrow> oid \<Rightarrow> oid \<Rightarrow> date \<Rightarrow> string \<Rightarrow> string \<Rightarrow> attemptJ" where
  "newAttempt i user examId now ip ua =
     \<lparr>ja_id = i, ja_student = user, ja_exam = examId, ja_answers = [],
      ja_startedAt = now, ja_submittedAt = None, ja_timeRemaining = 0,
      ja_totalScore = 0, ja_maxPossibleScore = 0, ja_percentage = None,
      ja_passed = False, ja_status = InProgress, ja_ipAddress = ip, ja_userAgent = ua\<rparr>"

text \<open>The questions sent along with the response (a sample of the exam's questions, drawn at
  random when the exam is randomized) are left out: the handler stores nothing of them.\<close>

definition startAttempt ::
    "db \<Rightarrow> oid \<Rightarrow> oid \<Rightarrow> date \<Rightarrow> string \<Rightarrow> string \<Rightarrow> failure + (db \<times> startResponse)" where
  "startAttempt d user examId now ip ua =
     (case findExam d examId of
        None \<Rightarrow> Inl (Failure 404 ''Exam not found'')
      | Some e \<Rightarrow>
          (case canUserTakeExam d now e user of
             Some reason \<Rightarrow> Inl (Failure 403 reason)
           | None \<Rightarrow>
               (let attempt = pre_save_Attempt None (\<lambda>_. None)
                                (newAttempt (db_nextId d) user (je_id e) now ip ua)
                in Inr (insertAttempt attempt d,
                        \<lparr>st_attempt = attempt, st_exam = e,
                         st_timeRemaining = je_duration e * 60\<rparr>))))"

subsection \<open>POST /:attemptId/answer (attempt routes)\<close>

text \<open>\<open>sr_valid\<close> is the verdict of the request validators
  (\<^verbatim>\<open>validationResult(req).isEmpty()\<close>). \<open>sr_questionId\<close> is the text of the body: the
  handler casts it to look the question up and to store the answer, and compares it as text with
  the identifiers of the stored answers. The attempt identifier is only ever cast, so it is given
  as the identifier it casts to.\<close>

record saveRequest =
  sr_valid :: bool
  sr_attemptId :: oid
  sr_questionId :: string
  sr_answer :: jsval
  sr_timeSpent :: bodyNum

fun findIndex :: "('a \<Rightarrow> bool) \<Rightarrow> 'a list \<Rightarrow> nat option" where
  "findIndex P [] = None"
| "findIndex P (x # xs) = (if P x then Some 0 else map_option Suc (findIndex P xs))"

text \<open>The automatic grading of the handler: \<^verbatim>\<open>isCorrect\<close> and \<^verbatim>\<open>scoreAwarded\<close>.\<close>

definition gradeAnswer :: "questionJ \<Rightarrow> jsval \<Rightarrow> bool \<times> rat" where
  "gradeAnswer question answer =
     (if jq_type question \<noteq> ShortAnswer then
        (let isCorrect = validateAnswer question answer
         in (isCorrect, if isCorrect then jq_points question else 0))
      else (False, 0))"

text \<open>The record built by the handler; \<open>questionId\<close> is the identifier the text of the request
  casts to.\<close>

definition answerData :: "oid \<Rightarrow> questionJ \<Rightarrow> saveRequest \<Rightarrow> answerJ" where
  "answerData questionId question r =
     \<lparr>jn_question = questionId,
      jn_studentAnswer = sr_answer r,
      jn_isCorrect = (if jq_type question \<noteq> ShortAnswer
                      then Some (fst (gradeAnswer question (sr_answer r))) else None),
      jn_manuallyGraded = False,
      jn_scoreAwarded = snd (gradeAnswer question (sr_answer r)),
      jn_timeSpent = bodyNumOr0 (sr_timeSpent r),
      jn_teacherFeedback = None\<rparr>"

text \<open>The existing answer is looked for with
  \<^verbatim>\<open>a.question.toString() === questionId\<close>, the text of the request taken as it came.\<close>

definition upsertAnswer :: "string \<Rightarrow> answerJ \<Rightarrow> answerJ list \<Rightarrow> answerJ list" where
  "upsertAnswer questionId data answers =
     (case findIndex (\<lambda>a. toString (jn_question a) = questionId) answers of
        Some existingAnswerIndex \<Rightarrow> answers[existingAnswerIndex := data]
      | None \<Rightarrow> answers @ [data])"

definition saveAnswer :: "db \<Rightarrow> oid \<Rightarrow> saveRequest \<Rightarrow> failure + (db \<times> bool \<times> rat)" where
  "saveAnswer d user r =
     (if \<not> sr_valid r then Inl (Failure 400 ''Validation failed'')
      else
        (case find (\<lambda>a. ja_id a = sr_attemptId r \<and> ja_student a = user \<and> ja_status a = InProgress)
                (db_attempts d) of
           None \<Rightarrow> Inl (Failure 404 ''Attempt not found or already submitted'')
         | Some attempt \<Rightarrow>
             (case castObjectId (sr_questionId r) of
                None \<Rightarrow> Inl (Failure 500 ''Failed to save answer'')
              | Some questionId \<Rightarrow>
                  (case findQuestion d questionId of
                     None \<Rightarrow> Inl (Failure 404 ''Question not found'')
                   | Some question \<Rightarrow>
                       (let changed = attempt\<lparr>ja_answers :=
                              upsertAnswer (sr_questionId r) (answerData questionId question r)
                                (ja_answers attempt)\<rparr>
                        in if sr_timeSpent r = NonNumeric
                           then Inl (Failure 500 ''Failed to save answer'')
                           else Inr (updateAttempt (pre_save_Attempt None (\<lambda>_. None) changed) d,
                                     gradeAnswer question (sr_answer r)))))))"

subsection \<open>POST /:attemptId/submit (attempt routes)\<close>

record submitResponse =
  sb_attempt :: attemptJ
  sb_totalScore :: rat
  sb_maxPossibleScore :: rat
  sb_percentage :: "rat option"
  sb_passed :: bool
  sb_timeSpent :: "int option"

text \<open>The loop over the answers: an answer whose question is gone is skipped, a short answer
  not graded by hand is reset, and every other score is added up.\<close>

fun scoreAnswers :: "db \<Rightarrow> rat \<Rightarrow> answerJ list \<Rightarrow> answerJ list \<times> rat" where
  "scoreAnswers d totalScore [] = ([], totalScore)"
| "scoreAnswers d totalScore (answer # rest) =
     (case findQuestion d (jn_question answer) of
        None \<Rightarrow>
          (case scoreAnswers d totalScore rest of (rest', t) \<Rightarrow> (answer # rest', t))
      | Some question \<Rightarrow>
          (let answer' = (if jq_type question = ShortAnswer \<and> \<not> jn_manuallyGraded answer
                          then answer\<lparr>jn_scoreAwarded := 0, jn_isCorrect := None\<rparr>
                          else answer)
           in case scoreAnswers d (totalScore + or_num (jn_scoreAwarded answer') 0) rest of
                (rest', t) \<Rightarrow> (answer' # rest', t)))"

text \<open>The schema bounds \<^verbatim>\<open>percentage\<close> by \<^verbatim>\<open>min: 0, max: 100\<close>; a save that
  assigned a value outside is rejected and the handler answers 500, as it does for a
  \<^verbatim>\<open>timeRemaining\<close> that does not cast to a number.\<close>

definition validPercentage :: "attemptJ \<Rightarrow> bool" where
  "validPercentage a = (case ja_percentage a of None \<Rightarrow> True | Some p \<Rightarrow> 0 \<le> p \<and> p \<le> 100)"

definition submitAttempt ::
    "db \<Rightarrow> oid \<Rightarrow> oid \<Rightarrow> bodyNum \<Rightarrow> date \<Rightarrow> failure + (db \<times> submitResponse)" where
  "submitAttempt d user attemptId timeRemaining now =
     (case find (\<lambda>a. ja_id a = attemptId \<and> ja_student a = user) (db_attempts d) of
        None \<Rightarrow> Inl (Failure 404 ''Attempt not found'')
      | Some attempt \<Rightarrow>
          if ja_status attempt \<noteq> InProgress then Inl (Failure 400 ''Attempt already submitted'')
          else
            (case findExam d (ja_exam attempt) of
               None \<Rightarrow> Inl (Failure 500 ''Failed to submit exam'')
             | Some e \<Rightarrow>
                 (let maxPossibleScore =
                        foldl (\<lambda>sum q. sum + jq_points q) 0
                          (filter (\<lambda>q. jq_exam q = je_id e) (db_questions d));
                      scored = scoreAnswers d 0 (ja_answers attempt);
                      totalScore = snd scored;
                      percentage = (if maxPossibleScore > 0
                                    then (totalScore / maxPossibleScore) * 100 else 0);
                      passed = (percentage \<ge> je_passMark e);
                      changed = attempt
                        \<lparr>ja_answers := fst scored,
                         ja_submittedAt := Some now,
                         ja_totalScore := totalScore,
                         ja_maxPossibleScore := maxPossibleScore,
                         ja_percentage := Some (Math_round (percentage * 100) / 100),
                         ja_passed := passed,
                         ja_status := (if je_showResults e then Graded else Submitted),
                         ja_timeRemaining := bodyNumOr0 timeRemaining\<rparr>
                  in if timeRemaining = NonNumeric \<or> \<not> validPercentage changed
                     then Inl (Failure 500 ''Failed to submit exam'')
                     else
                       (let saved = pre_save_Attempt (Some e) (\<lambda>_. None) changed
                        in Inr (updateAttempt saved d,
                                \<lparr>sb_attempt = saved,
                                 sb_totalScore = totalScore,
                                 sb_maxPossibleScore = maxPossibleScore,
                                 sb_percentage = ja_percentage saved,
                                 sb_passed = passed,
                                 sb_timeSpent = duration saved\<rparr>)))))"

section \<open>The specification's formulas\<close>

text \<open>The definitions of this section follow the words of the specification, not the code; the
  code is compared with them below.\<close>

text \<open>Marks awarded: the question's marks if correct; minus its negative marks if incorrect and
  negative marking is enabled; 0 otherwise.\<close>

definition spec_marksAwarded :: "bool \<Rightarrow> rat \<Rightarrow> rat \<Rightarrow> bool \<Rightarrow> rat" where
  "spec_marksAwarded negativeMarkingEnabled marks negativeMarks correct =
     (if correct then marks else if negativeMarkingEnabled then - negativeMarks else 0)"

text \<open>Percentage: the score over the total marks, times 100, rounded to two decimal places;
  0 when the total is 0.\<close>

definition spec_percentage :: "rat \<Rightarrow> rat \<Rightarrow> rat" where
  "spec_percentage score totalMarks =
     (if totalMarks = 0 then 0 else Math_round (score / totalMarks * 100 * 100) / 100)"

text \<open>The number of prior attempts of a student at an exam in any terminal status; of the
  terminal statuses the attempts of the JavaScript model have submitted, graded and abandoned.\<close>

definition spec_terminalCount :: "db \<Rightarrow> examJ \<Rightarrow> oid \<Rightarrow> nat" where
  "spec_terminalCount d e userId =
     length (filter (\<lambda>a. ja_exam a = je_id e \<and> ja_student a = userId \<and>
                         (ja_status a = Submitted \<or> ja_status a = Graded \<or> ja_status a = Abandoned))
               (db_attempts d))"

text \<open>The time budget of an attempt is exhausted at \<open>now\<close>: the duration of the exam, in
  minutes, has passed since the start.\<close>

definition spec_expired :: "examJ \<Rightarrow> attemptJ \<Rightarrow> date \<Rightarrow> bool" where
  "spec_expired e a now = (of_int now \<ge> of_int (ja_startedAt a) + je_duration e * 60 * 1000)"

section \<open>Concrete questions, exams and attempts\<close>

definition q_single :: question where
  "q_single =
     \<lparr>q_type = mcq_single,
      q_options = [\<lparr>o_text = ''A'', o_isCorrect = True\<rparr>, \<lparr>o_text = ''B'', o_isCorrect = False\<rparr>],
      q_correctAnswers = [], q_marks = 4, q_negativeMarks = 1\<rparr>"

definition q_essay :: "rat \<Rightarrow> question" where
  "q_essay negativeMarks =
     \<lparr>q_type = essay, q_options = [], q_correctAnswers = [], q_marks = 10,
      q_negativeMarks = negativeMarks\<rparr>"

definition q_short :: question where
  "q_short =
     \<lparr>q_type = short_answer, q_options = [], q_correctAnswers = [''hello world''],
      q_marks = 2, q_negativeMarks = 0\<rparr>"

definition settings_plain :: examSettings where
  "settings_plain =
     \<lparr>s_maxAttempts = 1, s_allowRetake = False, s_negativeMarking = False,
      s_negativeMarkingPercentage = 25\<rparr>"

definition exam_with_passMark :: "rat \<Rightarrow> exam" where
  "exam_with_passMark p =
     \<lparr>ex_id = 10, ex_passMark = p, ex_totalMarks = 10, ex_duration = 60,
      ex_settings = settings_plain\<rparr>"

text \<open>An attempt of student 1 at exam 10 out of \<open>outOf\<close> marks, holding the given marks awarded
  and the given previous score, percentage and verdict.\<close>

definition ea_with :: "rat list \<Rightarrow> rat \<Rightarrow> rat \<Rightarrow> rat \<Rightarrow> bool \<Rightarrow> examAttempt" where
  "ea_with awarded outOf score pct verdict =
     \<lparr>ea_examId = 10, ea_studentId = 1, ea_status = in_progress, ea_startTime = 0,
      ea_endTime = None, ea_submittedAt = None, ea_timeTaken = 0, ea_score = score,
      ea_percentage = pct, ea_totalMarks = outOf, ea_passed = verdict,
      ea_answers = map (\<lambda>m. \<lparr>an_questionId = 20, an_answer = VStr ''A'', an_isCorrect = (m > 0),
                                an_marksAwarded = m\<rparr>) awarded\<rparr>"

definition qj_short :: questionJ where
  "qj_short =
     \<lparr>jq_id = 22, jq_exam = 10, jq_type = ShortAnswer, jq_correctAnswer = VArr [''hello world''],
      jq_points = 2, jq_isActive = True\<rparr>"

text \<open>Exam 10 lasts one minute and allows one attempt; its questions 20 and 21 are single
  choices worth 5 points with the answer \<^verbatim>\<open>A\<close>, question 22 is the short answer above.
  Attempt 50 is student 1's.\<close>

definition exam_js :: "rat \<Rightarrow> examJ" where
  "exam_js p =
     \<lparr>je_id = 10, je_duration = 1, je_availableFrom = 0, je_availableTo = 1000000,
      je_passMark = p, je_maxAttempts = 1, je_showResults = False, je_allowRetakes = False\<rparr>"

definition qj_single :: "oid \<Rightarrow> questionJ" where
  "qj_single i =
     \<lparr>jq_id = i, jq_exam = 10, jq_type = McqSingle, jq_correctAnswer = VStr ''A'',
      jq_points = 5, jq_isActive = True\<rparr>"

definition attempt_js :: "statusJ \<Rightarrow> answerJ list \<Rightarrow> attemptJ" where
  "attempt_js st answers =
     (newAttempt 50 1 10 0 ''10.0.0.1'' ''agent'')\<lparr>ja_status := st, ja_answers := answers\<rparr>"

definition db_with :: "examJ \<Rightarrow> attemptJ list \<Rightarrow> db" where
  "db_with e as =
     \<lparr>db_exams = [e], db_questions = [qj_single 20, qj_single 21, qj_short],
      db_attempts = as, db_nextId = 100\<rparr>"

text \<open>A request for attempt 50 that names the question by the given text, and the request that
  names it by the text \<^verbatim>\<open>toString()\<close> gives.\<close>

definition request_text :: "string \<Rightarrow> string \<Rightarrow> saveRequest" where
  "request_text questionId s =
     \<lparr>sr_valid = True, sr_attemptId = 50, sr_questionId = questionId, sr_answer = VStr s,
      sr_timeSpent = Num 7\<rparr>"

definition request_js :: "oid \<Rightarrow> string \<Rightarrow> saveRequest" where
  "request_js questionId s = request_text (toString questionId) s"

definition stored_answer :: "oid \<Rightarrow> string \<Rightarrow> answerJ" where
  "stored_answer i s = answerData i (qj_single i) (request_js i s)"

text \<open>The exam with two single-choice questions of 5 points each, and the given attempts.\<close>

definition db_of :: "oid \<Rightarrow> oid \<Rightarrow> examJ \<Rightarrow> attemptJ list \<Rightarrow> db" where
  "db_of i j e as =
     \<lparr>db_exams = [e], db_questions = [qj_single i, qj_single j], db_attempts = as,
      db_nextId = 100\<rparr>"

text \<open>What the submit route has answered and stored, \<open>None\<close> when the route refuses: the
  total score and the verdict of its answer, and the percentage and the verdict of every stored
  attempt.\<close>

definition reportedScore :: "failure + (db \<times> submitResponse) \<Rightarrow> rat option" where
  "reportedScore x = (case x of Inl _ \<Rightarrow> None | Inr (_, resp) \<Rightarrow> Some (sb_totalScore resp))"

definition reportedVerdict :: "failure + (db \<times> submitResponse) \<Rightarrow> bool option" where
  "reportedVerdict x = (case x of Inl _ \<Rightarrow> None | Inr (_, resp) \<Rightarrow> Some (sb_passed resp))"

definition storedVerdicts :: "failure + (db \<times> submitResponse) \<Rightarrow> (rat option \<times> bool) list option" where
  "storedVerdicts x =
     (case x of
        Inl _ \<Rightarrow> None
      | Inr (d, _) \<Rightarrow> Some (map (\<lambda>a. (ja_percentage a, ja_passed a)) (db_attempts d)))"

section \<open>Properties of the TypeScript models\<close>

subsection \<open>Rounding\<close>

lemma Math_round_of_int: "Math_round (of_int n) = of_int n"
proof -
  have "\<lfloor>(of_int n :: rat) + 1 / 2\<rfloor> = n"
    by (rule floor_unique) simp_all
  then show ?thesis by (simp add: Math_round_def)
qed

lemma Math_round_numeral: "Math_round (numeral k) = numeral k"
  using Math_round_of_int [of "numeral k"] by simp

lemma Math_round_0: "Math_round 0 = 0"
  using Math_round_of_int [of 0] by simp

subsection \<open>Marks awarded\<close>

text \<open>
  C5, as the specification states it, fails. The exam of the first line has negative marking
  switched off; the question carries one negative mark; the wrong option is answered. The
  specification awards 0, \<^verbatim>\<open>calculateMarks\<close> awards -1: it never reads the settings of the
  exam.
\<close>

theorem calculateMarks_ignores_exam_switch:
  "s_negativeMarking (ex_settings (exam_with_passMark 60)) = False \<and>
   isCorrect q_single (VStr ''B'') = Some False \<and>
   calculateMarks q_single (VStr ''B'') = - 1 \<and>
   spec_marksAwarded (s_negativeMarking (ex_settings (exam_with_passMark 60)))
     (q_marks q_single) (q_negativeMarks q_single) (isCorrect q_single (VStr ''B'') = Some True) = 0"
  by (simp add: calculateMarks_def isCorrect_def q_single_def settings_plain_def
        exam_with_passMark_def spec_marksAwarded_def)

text \<open>
  C5, amended: for every question and submitted answer, \<^verbatim>\<open>calculateMarks\<close> awards the marks
  of the question if the answer is correct, minus the negative marks of the question if the answer
  is incorrect and the question's own negative marks are positive (the switch of the exam is not
  consulted), and 0 otherwise; the answer route awards the points of the question if the question
  is not a short answer and the answer validates, and 0 otherwise, with no negative marking.
\<close>

theorem marks_awarded_by_question:
  "calculateMarks q a =
     spec_marksAwarded (q_negativeMarks q > 0) (q_marks q) (q_negativeMarks q)
       (isCorrect q a = Some True) \<and>
   snd (gradeAnswer qj a) =
     spec_marksAwarded False (jq_points qj) 0 (jq_type qj \<noteq> ShortAnswer \<and> validateAnswer qj a)"
  by (simp add: calculateMarks_def spec_marksAwarded_def gradeAnswer_def Let_def)

theorem marks_awarded_by_question_witness:
  "calculateMarks q_single (VStr ''A'') = 4 \<and> calculateMarks q_single (VStr ''B'') = - 1 \<and>
   snd (gradeAnswer qj_short (VStr ''A'')) = 0"
  using marks_awarded_by_question [of q_single "VStr ''A''" qj_short]
        marks_awarded_by_question [of q_single "VStr ''B''" qj_short]
  by (simp add: spec_marksAwarded_def isCorrect_def q_single_def qj_short_def)

subsection \<open>Essays\<close>

text \<open>
  C7, as the specification states it, fails: for an essay question carrying two negative marks
  the automatic evaluation answers \<^verbatim>\<open>false\<close>, not null, and awards -2, not 0.
\<close>

theorem essay_penalised:
  "isCorrect (q_essay 2) (VStr ''An essay.'') = Some False \<and>
   isCorrect (q_essay 2) (VStr ''An essay.'') \<noteq> None \<and>
   calculateMarks (q_essay 2) (VStr ''An essay.'') = - 2"
  by (simp add: calculateMarks_def isCorrect_def q_essay_def)

text \<open>
  C7, amended: for every essay question and every submitted answer, \<^verbatim>\<open>isCorrect\<close> returns
  \<^verbatim>\<open>false\<close> (a boolean: never null, never true), and \<^verbatim>\<open>calculateMarks\<close> never awards
  the marks of the question: it awards at most 0, and exactly 0 when the question carries no
  negative marks.
\<close>

theorem essay_never_correct:
  "q_type q = essay \<Longrightarrow>
     isCorrect q a = Some False \<and> calculateMarks q a \<le> 0 \<and>
     (q_negativeMarks q = 0 \<longrightarrow> calculateMarks q a = 0)"
  by (simp add: calculateMarks_def isCorrect_def)

theorem essay_never_correct_witness:
  "q_type (q_essay 0) = essay \<and> q_negativeMarks (q_essay 0) = 0 \<and>
   isCorrect (q_essay 0) (VStr ''An essay.'') = Some False \<and>
   calculateMarks (q_essay 0) (VStr ''An essay.'') = 0"
  using essay_never_correct [of "q_essay 0" "VStr ''An essay.''"]
  by (simp add: q_essay_def)

subsection \<open>Short answers\<close>

text \<open>The JavaScript model accepts a short answer exactly when its normalized form is the
  normalized form of one of the accepted answers.\<close>

lemma validateAnswer_short_answer:
  "jq_type q = ShortAnswer \<Longrightarrow> jq_correctAnswer q = VArr ca \<Longrightarrow>
     validateAnswer q a = (\<exists>c \<in> set ca. normalizeAnswer (VStr c) = normalizeAnswer a)"
  by (simp add: validateAnswer_def list_ex_iff)

text \<open>
  C6 at the answer \<^verbatim>\<open>hello  world\<close> (two blanks) for the accepted answer
  \<^verbatim>\<open>hello world\<close>: the normalized forms are equal and \<^verbatim>\<open>validateAnswer\<close> of the
  JavaScript model accepts the answer, but \<^verbatim>\<open>isCorrect\<close> of the TypeScript model, which
  lowercases and trims without collapsing inner white space, rejects it.
\<close>

theorem isCorrect_keeps_inner_whitespace:
  "normalizeAnswer (VStr ''hello  world'') = normalizeAnswer (VStr ''hello world'') \<and>
   validateAnswer qj_short (VStr ''hello  world'') \<and>
   isCorrect q_short (VStr ''hello  world'') = Some False"
  by code_simp

subsection \<open>Percentage\<close>

text \<open>
  C2 at score 1 out of 8 marks: the specification's percentage is 12.5,
  \<^verbatim>\<open>calculatePercentage\<close> rounds it to the whole number 13. (1/8, 12.5 and 1250 are
  represented exactly by a double, so the exact arithmetic of the model is here the arithmetic of
  the code.)
\<close>

theorem calculatePercentage_rounds_to_whole_number:
  "calculatePercentage (ea_with [1] 8 1 0 False) = 13 \<and>
   spec_percentage (ea_score (ea_with [1] 8 1 0 False)) (ea_totalMarks (ea_with [1] 8 1 0 False))
     = 25 / 2"
  by code_simp

subsection \<open>The pre-save hook\<close>

lemma setTimeTaken_fields:
  "ea_answers (setTimeTaken a) = ea_answers a"
  "ea_score (setTimeTaken a) = ea_score a"
  "ea_percentage (setTimeTaken a) = ea_percentage a"
  "ea_totalMarks (setTimeTaken a) = ea_totalMarks a"
  "ea_passed (setTimeTaken a) = ea_passed a"
  by (simp_all add: setTimeTaken_def split: option.split)

lemma setSubmitted_fields:
  "ea_answers (setSubmitted now a) = ea_answers a"
  "ea_score (setSubmitted now a) = ea_score a"
  "ea_percentage (setSubmitted now a) = ea_percentage a"
  "ea_totalMarks (setSubmitted now a) = ea_totalMarks a"
  "ea_passed (setSubmitted now a) = ea_passed a"
  by (simp_all add: setSubmitted_def Let_def)

lemma setPassed_fields:
  "ea_answers (setPassed e a) = ea_answers a"
  "ea_score (setPassed e a) = ea_score a"
  "ea_percentage (setPassed e a) = ea_percentage a"
  "ea_totalMarks (setPassed e a) = ea_totalMarks a"
  "ea_passed (setPassed e a) = (if ea_percentage a > 0 then isPassed e a else ea_passed a)"
  by (simp_all add: setPassed_def)

lemma setScore_fields:
  "ea_answers (setScore a) = ea_answers a"
  "ea_totalMarks (setScore a) = ea_totalMarks a"
  "ea_passed (setScore a) = ea_passed a"
  "ea_score (setScore a) = (if ea_answers a \<noteq> [] then calculateScore a else ea_score a)"
  "ea_percentage (setScore a) =
     (if ea_answers a \<noteq> [] then calculatePercentage (a\<lparr>ea_score := calculateScore a\<rparr>)
      else ea_percentage a)"
  by (simp_all add: setScore_def Let_def)

lemma calculateScore_cong: "ea_answers a = ea_answers b \<Longrightarrow> calculateScore a = calculateScore b"
  by (simp add: calculateScore_def)

lemma calculatePercentage_cong:
  "ea_score a = ea_score b \<Longrightarrow> ea_totalMarks a = ea_totalMarks b \<Longrightarrow>
   calculatePercentage a = calculatePercentage b"
  by (simp add: calculatePercentage_def)

lemma isPassed_cong: "ea_percentage a = ea_percentage b \<Longrightarrow> isPassed e a = isPassed e b"
  by (simp add: isPassed_def)

lemma pre_save_score:
  "ea_score (pre_save e now a) = (if ea_answers a \<noteq> [] then calculateScore a else ea_score a)"
  by (simp add: pre_save_def setSubmitted_fields setPassed_fields setScore_fields setTimeTaken_fields
        calculateScore_cong [of "setTimeTaken a" a])

lemma pre_save_percentage:
  "ea_percentage (pre_save e now a) =
     (if ea_answers a \<noteq> [] then calculatePercentage (a\<lparr>ea_score := calculateScore a\<rparr>)
      else ea_percentage a)"
proof -
  have "calculatePercentage ((setTimeTaken a)\<lparr>ea_score := calculateScore (setTimeTaken a)\<rparr>)
        = calculatePercentage (a\<lparr>ea_score := calculateScore a\<rparr>)"
    by (rule calculatePercentage_cong)
       (simp_all add: setTimeTaken_fields calculateScore_cong [of "setTimeTaken a" a])
  then show ?thesis
    by (simp add: pre_save_def setSubmitted_fields setPassed_fields setScore_fields setTimeTaken_fields)
qed

lemma pre_save_passed:
  "ea_passed (pre_save e now a) =
     (if ea_percentage (pre_save e now a) > 0 then isPassed e (pre_save e now a) else ea_passed a)"
proof -
  let ?s = "setScore (setTimeTaken a)"
  have p: "ea_percentage (pre_save e now a) = ea_percentage ?s"
    by (simp add: pre_save_def setSubmitted_fields setPassed_fields)
  have "ea_passed (pre_save e now a) = (if ea_percentage ?s > 0 then isPassed e ?s else ea_passed ?s)"
    by (simp add: pre_save_def setSubmitted_fields setPassed_fields)
  moreover have "isPassed e ?s = isPassed e (pre_save e now a)"
    by (rule isPassed_cong) (simp add: p)
  moreover have "ea_passed ?s = ea_passed a"
    by (simp add: setScore_fields setTimeTaken_fields)
  ultimately show ?thesis by (simp add: p)
qed

text \<open>
  C10: on every save the hook recomputes score and percentage only when there are answers (and
  leaves both as they were otherwise), and recomputes the verdict only when the resulting
  percentage is strictly positive; an attempt whose percentage is not positive keeps its previous
  verdict, whatever the pass mark of the exam.
\<close>

theorem pre_save_recomputation:
  "(ea_answers a = [] \<longrightarrow>
      ea_score (pre_save e now a) = ea_score a \<and>
      ea_percentage (pre_save e now a) = ea_percentage a) \<and>
   (ea_answers a \<noteq> [] \<longrightarrow>
      ea_score (pre_save e now a) = calculateScore a \<and>
      ea_percentage (pre_save e now a) = calculatePercentage (a\<lparr>ea_score := calculateScore a\<rparr>)) \<and>
   (ea_percentage (pre_save e now a) > 0 \<longrightarrow>
      ea_passed (pre_save e now a) = isPassed e (pre_save e now a)) \<and>
   (\<not> ea_percentage (pre_save e now a) > 0 \<longrightarrow>
      ea_passed (pre_save e now a) = ea_passed a)"
  using pre_save_score [of e now a] pre_save_percentage [of e now a] pre_save_passed [of e now a]
  by presburger

theorem pre_save_recomputation_witness:
  "ea_answers (ea_with [] 10 7 70 True) = [] \<and>
   ea_score (pre_save (Some (exam_with_passMark 80)) 1000 (ea_with [] 10 7 70 True)) = 7 \<and>
   ea_percentage (pre_save (Some (exam_with_passMark 80)) 1000 (ea_with [] 10 7 70 True)) = 70 \<and>
   ea_passed (pre_save (Some (exam_with_passMark 80)) 1000 (ea_with [] 10 7 70 True)) = False \<and>
   ea_answers (ea_with [5] 10 0 0 False) \<noteq> [] \<and>
   ea_score (pre_save (Some (exam_with_passMark 40)) 1000 (ea_with [5] 10 0 0 False)) = 5 \<and>
   ea_percentage (pre_save (Some (exam_with_passMark 40)) 1000 (ea_with [5] 10 0 0 False)) = 50 \<and>
   ea_passed (pre_save (Some (exam_with_passMark 40)) 1000 (ea_with [5] 10 0 0 False)) = True \<and>
   ex_passMark (exam_with_passMark 0) = 0 \<and>
   ea_percentage (pre_save (Some (exam_with_passMark 0)) 1000 (ea_with [0] 10 0 0 False)) = 0 \<and>
   ea_passed (pre_save (Some (exam_with_passMark 0)) 1000 (ea_with [0] 10 0 0 False)) = False"
proof -
  let ?a = "ea_with [] 10 7 70 True" and ?e = "Some (exam_with_passMark 80)"
  let ?b = "ea_with [5] 10 0 0 False" and ?f = "Some (exam_with_passMark 40)"
  let ?c = "ea_with [0] 10 0 0 False" and ?g = "Some (exam_with_passMark 0)"
  note A = pre_save_recomputation [of ?a ?e 1000]
  note B = pre_save_recomputation [of ?b ?f 1000]
  note C = pre_save_recomputation [of ?c ?g 1000]
  have a0: "ea_answers ?a = []" by (simp add: ea_with_def)
  with A have a1: "ea_score (pre_save ?e 1000 ?a) = 7 \<and> ea_percentage (pre_save ?e 1000 ?a) = 70"
    by (simp add: ea_with_def)
  with A have a2: "ea_passed (pre_save ?e 1000 ?a) = False"
    by (simp add: isPassed_def exam_with_passMark_def or_num_def)
  have b0: "ea_answers ?b \<noteq> []" by (simp add: ea_with_def)
  with B have b1: "ea_score (pre_save ?f 1000 ?b) = 5 \<and> ea_percentage (pre_save ?f 1000 ?b) = 50"
    by (simp add: ea_with_def calculateScore_def calculatePercentage_def Math_round_numeral or_num_def)
  with B have b2: "ea_passed (pre_save ?f 1000 ?b) = True"
    by (simp add: isPassed_def exam_with_passMark_def or_num_def)
  have c0: "ea_answers ?c \<noteq> []" by (simp add: ea_with_def)
  with C have c1: "ea_percentage (pre_save ?g 1000 ?c) = 0"
    by (simp add: ea_with_def calculateScore_def calculatePercentage_def Math_round_0 or_num_def)
  with C have c2: "ea_passed (pre_save ?g 1000 ?c) = False"
    by (simp add: ea_with_def)
  show ?thesis
    using a0 a1 a2 b0 b1 b2 c1 c2 by (simp add: exam_with_passMark_def)
qed

section \<open>Properties of the routes\<close>

subsection \<open>The text of an identifier casts back to it\<close>

lemma hexValue_hexChar: "m < 16 \<Longrightarrow> hexValue (hexChar m) = Some m"
proof -
  assume "m < 16"
  then have "m = 0 \<or> m = 1 \<or> m = 2 \<or> m = 3 \<or> m = 4 \<or> m = 5 \<or> m = 6 \<or> m = 7 \<or>
             m = 8 \<or> m = 9 \<or> m = 10 \<or> m = 11 \<or> m = 12 \<or> m = 13 \<or> m = 14 \<or> m = 15"
    by arith
  then show ?thesis
    by (elim disjE) (simp_all add: hexChar_def hexValue_def)
qed

lemma length_hexString: "length (hexString k n) = k"
  by (induction k arbitrary: n) simp_all

lemma parseHex_append:
  "parseHex acc (xs @ [c]) =
     (case parseHex acc xs of
        None \<Rightarrow> None
      | Some a \<Rightarrow> (case hexValue c of None \<Rightarrow> None | Some v \<Rightarrow> Some (a * 16 + v)))"
  by (induction xs arbitrary: acc) (simp_all split: option.splits)

lemma parseHex_hexString: "parseHex 0 (hexString k n) = Some (n mod 16 ^ k)"
proof (induction k arbitrary: n)
  case 0
  then show ?case by simp
next
  case (Suc k)
  have "(n div 16) mod 16 ^ k * 16 + n mod 16 = n mod (16 * 16 ^ k)"
    by (simp add: mod_mult2_eq mult.commute)
  with Suc show ?case
    by (simp add: parseHex_append hexValue_hexChar)
qed

lemma castObjectId_toString: "i < 16 ^ 24 \<Longrightarrow> castObjectId (toString i) = Some i"
  by (simp add: castObjectId_def toString_def length_hexString parseHex_hexString)

subsection \<open>Facts about the collections and the hook\<close>

lemma pre_save_Attempt_InProgress: "ja_status a = InProgress \<Longrightarrow> pre_save_Attempt e qs a = a"
  by (simp add: pre_save_Attempt_def)

lemma pre_save_Attempt_answers: "ja_answers (pre_save_Attempt e qs a) = ja_answers a"
  by (simp add: pre_save_Attempt_def calculateScores_def Let_def)

lemma distinct_ids_same:
  "distinct (map ja_id xs) \<Longrightarrow> x \<in> set xs \<Longrightarrow> y \<in> set xs \<Longrightarrow> ja_id x = ja_id y \<Longrightarrow> x = y"
  by (auto simp add: distinct_map inj_on_def)

lemma updateAttempt_statuses:
  assumes "find P (db_attempts d) = Some a" and "ja_id c = ja_id a" and "ja_status c = ja_status a"
      and "\<And>x. x \<in> set (db_attempts d) \<Longrightarrow> ja_id x = ja_id a \<Longrightarrow> ja_status x = ja_status a"
  shows "map ja_status (db_attempts (updateAttempt c d)) = map ja_status (db_attempts d)"
  using assms by (auto simp add: updateAttempt_def)

lemma findExam_insertAttempt: "findExam (insertAttempt a d) i = findExam d i"
  by (simp add: findExam_def insertAttempt_def)

subsection \<open>What a successful handler has done\<close>

lemma saveAnswer_Inr_D:
  assumes ok: "saveAnswer d user r = Inr (d1, res1)"
  obtains a i q where
    "sr_valid r"
    "find (\<lambda>a. ja_id a = sr_attemptId r \<and> ja_student a = user \<and> ja_status a = InProgress)
       (db_attempts d) = Some a"
    "castObjectId (sr_questionId r) = Some i"
    "findQuestion d i = Some q"
    "sr_timeSpent r \<noteq> NonNumeric"
    "d1 = updateAttempt
            (a\<lparr>ja_answers := upsertAnswer (sr_questionId r) (answerData i q r) (ja_answers a)\<rparr>) d"
    "res1 = gradeAnswer q (sr_answer r)"
proof -
  let ?P = "\<lambda>a. ja_id a = sr_attemptId r \<and> ja_student a = user \<and> ja_status a = InProgress"
  have v: "sr_valid r"
    using ok by (cases "sr_valid r") (simp_all add: saveAnswer_def)
  obtain a where a: "find ?P (db_attempts d) = Some a"
    using ok v by (cases "find ?P (db_attempts d)") (simp_all add: saveAnswer_def)
  obtain i where i: "castObjectId (sr_questionId r) = Some i"
    using ok v a by (cases "castObjectId (sr_questionId r)") (simp_all add: saveAnswer_def)
  obtain q where q: "findQuestion d i = Some q"
    using ok v a i by (cases "findQuestion d i") (simp_all add: saveAnswer_def)
  have t: "sr_timeSpent r \<noteq> NonNumeric"
    using ok v a i q by (cases "sr_timeSpent r = NonNumeric") (simp_all add: saveAnswer_def Let_def)
  let ?c = "a\<lparr>ja_answers := upsertAnswer (sr_questionId r) (answerData i q r) (ja_answers a)\<rparr>"
  from a have "ja_status a = InProgress" by (auto simp add: find_Some_iff)
  then have "pre_save_Attempt None (\<lambda>_. None) ?c = ?c"
    by (simp add: pre_save_Attempt_InProgress)
  with ok v a i q t have "d1 = updateAttempt ?c d" and "res1 = gradeAnswer q (sr_answer r)"
    by (simp_all add: saveAnswer_def Let_def)
  with v a i q t show thesis by (rule that)
qed

lemma startAttempt_Inr:
  assumes "findExam d examId = Some e" and "canUserTakeExam d now e user = None"
  shows "startAttempt d user examId now ip ua =
           Inr (insertAttempt (newAttempt (db_nextId d) user (je_id e) now ip ua) d,
                \<lparr>st_attempt = newAttempt (db_nextId d) user (je_id e) now ip ua, st_exam = e,
                 st_timeRemaining = je_duration e * 60\<rparr>)"
  using assms by (simp add: startAttempt_def pre_save_Attempt_def newAttempt_def Let_def)

lemma startAttempt_Inr_iff:
  "(\<exists>x. startAttempt d user examId now ip ua = Inr x) =
     (\<exists>e. findExam d examId = Some e \<and> canUserTakeExam d now e user = None)"
  by (auto simp add: startAttempt_def Let_def split: option.splits)

lemma canUserTakeExam_insert_InProgress:
  "ja_status a = InProgress \<Longrightarrow>
     canUserTakeExam (insertAttempt a d) now e userId = canUserTakeExam d now e userId"
  by (simp add: canUserTakeExam_def attemptCount_def insertAttempt_def)

lemma canUserTakeExam_later:
  "canUserTakeExam d now e userId = None \<Longrightarrow> isAvailable later e \<Longrightarrow>
     canUserTakeExam d later e userId = None"
  by (simp add: canUserTakeExam_def split: if_splits)

subsection \<open>Counting attempts\<close>

text \<open>
  C8, as the specification states it, fails. Student 1 has one abandoned attempt at an exam that
  allows one attempt and no retake: one prior attempt is in a terminal status, yet
  \<^verbatim>\<open>canUserTakeExam\<close> counts none and allows the start. Likewise \<^verbatim>\<open>getRemainingAttempts\<close>
  of the TypeScript model does not count a terminated attempt.
\<close>

theorem abandoned_attempt_not_counted:
  "spec_terminalCount (db_with (exam_js 60) [attempt_js Abandoned []]) (exam_js 60) 1 = 1 \<and>
   je_maxAttempts (exam_js 60) = 1 \<and> \<not> je_allowRetakes (exam_js 60) \<and>
   canUserTakeExam (db_with (exam_js 60) [attempt_js Abandoned []]) 500 (exam_js 60) 1 = None \<and>
   getRemainingAttempts [(ea_with [] 10 0 0 False)\<lparr>ea_status := terminated\<rparr>]
     (exam_with_passMark 60) 1 = 1"
  by (simp add: spec_terminalCount_def db_with_def exam_js_def attempt_js_def newAttempt_def
        canUserTakeExam_def isAvailable_def attemptCount_def getRemainingAttempts_def ea_with_def
        exam_with_passMark_def settings_plain_def)

text \<open>
  C8, amended: when deciding whether a student may start a new attempt, the count compared
  against \<^verbatim>\<open>maxAttempts\<close> is the number of that student's attempts at the exam whose status is
  submitted or graded (abandoned and in-progress attempts are not counted), and the start is
  refused with "Maximum attempts reached" exactly when the exam is available, that count is at
  least \<^verbatim>\<open>maxAttempts\<close> and retakes are not allowed; \<^verbatim>\<open>getRemainingAttempts\<close> counts the
  attempts whose status is submitted or auto-submitted.
\<close>

theorem max_attempts_counts_submitted_and_graded:
  "(canUserTakeExam d now e userId = Some ''Maximum attempts reached'') =
     (isAvailable now e \<and>
      of_nat (length (filter (\<lambda>a. ja_exam a = je_id e \<and> ja_student a = userId \<and>
                                   (ja_status a = Submitted \<or> ja_status a = Graded))
                         (db_attempts d))) \<ge> je_maxAttempts e \<and>
      \<not> je_allowRetakes e) \<and>
   (ja_status a = Abandoned \<or> ja_status a = InProgress \<longrightarrow>
      canUserTakeExam (insertAttempt a d) now e userId = canUserTakeExam d now e userId) \<and>
   getRemainingAttempts c x studentId =
     max 0 (s_maxAttempts (ex_settings x) -
            of_nat (length (filter (\<lambda>a. ea_examId a = ex_id x \<and> ea_studentId a = studentId \<and>
                                         (ea_status a = submitted \<or> ea_status a = auto_submitted)) c)))"
  by (auto simp add: canUserTakeExam_def attemptCount_def insertAttempt_def getRemainingAttempts_def)

theorem max_attempts_counts_submitted_and_graded_witness:
  "canUserTakeExam (db_with (exam_js 60) [attempt_js Submitted []]) 500 (exam_js 60) 1
     = Some ''Maximum attempts reached'' \<and>
   ja_status (attempt_js Abandoned []) = Abandoned \<and>
   canUserTakeExam (insertAttempt (attempt_js Abandoned []) (db_with (exam_js 60) [])) 500 (exam_js 60) 1
     = None"
  using max_attempts_counts_submitted_and_graded
          [of "db_with (exam_js 60) [attempt_js Submitted []]" 500 "exam_js 60" 1
              "attempt_js Abandoned []" "[]" "exam_with_passMark 60" 1]
        max_attempts_counts_submitted_and_graded
          [of "db_with (exam_js 60) []" 500 "exam_js 60" 1
              "attempt_js Abandoned []" "[]" "exam_with_passMark 60" 1]
  by (simp add: db_with_def exam_js_def attempt_js_def newAttempt_def isAvailable_def
        canUserTakeExam_def attemptCount_def)

subsection \<open>Saving an answer\<close>

text \<open>
  C3, as the specification states it, fails. The exam lasts one minute and the attempt started at
  time 0, so at 61 seconds its time budget is exhausted; the answer route, which reads no clock,
  stores the answer, reports it correct with 5 points and leaves the attempt in progress.
\<close>

theorem answer_saved_after_time_budget:
  "spec_expired (exam_js 60) (attempt_js InProgress []) 61000 \<and>
   saveAnswer (db_with (exam_js 60) [attempt_js InProgress []]) 1 (request_js 20 ''A'') =
     Inr (db_with (exam_js 60) [attempt_js InProgress [stored_answer 20 ''A'']], True, 5) \<and>
   ja_status (attempt_js InProgress [stored_answer 20 ''A'']) = InProgress"
proof -
  have c: "castObjectId (toString 20) = Some 20"
    by (simp add: castObjectId_toString)
  show ?thesis
    by (simp add: spec_expired_def exam_js_def attempt_js_def newAttempt_def db_with_def
          request_js_def request_text_def c saveAnswer_def findQuestion_def qj_single_def
          gradeAnswer_def validateAnswer_def upsertAnswer_def answerData_def stored_answer_def
          pre_save_Attempt_def updateAttempt_def)
qed

text \<open>
  C3, amended: a \<^verbatim>\<open>saveAnswer\<close> call succeeds exactly when the request is valid, an attempt
  with that identifier belongs to the caller and has status in-progress, the question identifier
  of the request casts to the identifier of an existing question, and the time spent, if given,
  is a number; the time elapsed since the start is not consulted. A valid request for an attempt
  that is not (or no longer) in progress is rejected with 404 "Attempt not found or already
  submitted", and a successful write changes the status of no attempt: nothing is submitted
  automatically.
\<close>

theorem saveAnswer_succeeds_while_in_progress:
  "((\<exists>d' res. saveAnswer d user r = Inr (d', res)) =
      (sr_valid r \<and>
       (\<exists>a \<in> set (db_attempts d).
          ja_id a = sr_attemptId r \<and> ja_student a = user \<and> ja_status a = InProgress) \<and>
       (\<exists>q \<in> set (db_questions d). castObjectId (sr_questionId r) = Some (jq_id q)) \<and>
       sr_timeSpent r \<noteq> NonNumeric)) \<and>
   (sr_valid r \<and>
    \<not> (\<exists>a \<in> set (db_attempts d).
          ja_id a = sr_attemptId r \<and> ja_student a = user \<and> ja_status a = InProgress) \<longrightarrow>
      saveAnswer d user r = Inl (Failure 404 ''Attempt not found or already submitted'')) \<and>
   (distinct (map ja_id (db_attempts d)) \<and> saveAnswer d user r = Inr (d1, res1) \<longrightarrow>
      map ja_status (db_attempts d1) = map ja_status (db_attempts d))"
proof (intro conjI impI)
  let ?P = "\<lambda>a. ja_id a = sr_attemptId r \<and> ja_student a = user \<and> ja_status a = InProgress"
  show "(\<exists>d' res. saveAnswer d user r = Inr (d', res)) =
      (sr_valid r \<and>
       (\<exists>a \<in> set (db_attempts d).
          ja_id a = sr_attemptId r \<and> ja_student a = user \<and> ja_status a = InProgress) \<and>
       (\<exists>q \<in> set (db_questions d). castObjectId (sr_questionId r) = Some (jq_id q)) \<and>
       sr_timeSpent r \<noteq> NonNumeric)"
  proof
    assume "\<exists>d' res. saveAnswer d user r = Inr (d', res)"
    then obtain d' res where ok: "saveAnswer d user r = Inr (d', res)" by blast
    then obtain a i q where "sr_valid r" and a: "find ?P (db_attempts d) = Some a"
      and i: "castObjectId (sr_questionId r) = Some i" and q: "findQuestion d i = Some q"
      and t: "sr_timeSpent r \<noteq> NonNumeric"
      by (rule saveAnswer_Inr_D)
    moreover from a have "a \<in> set (db_attempts d) \<and> ?P a" by (auto simp add: find_Some_iff)
    moreover from q have "q \<in> set (db_questions d) \<and> jq_id q = i"
      by (auto simp add: findQuestion_def find_Some_iff)
    ultimately show "sr_valid r \<and>
       (\<exists>a \<in> set (db_attempts d).
          ja_id a = sr_attemptId r \<and> ja_student a = user \<and> ja_status a = InProgress) \<and>
       (\<exists>q \<in> set (db_questions d). castObjectId (sr_questionId r) = Some (jq_id q)) \<and>
       sr_timeSpent r \<noteq> NonNumeric"
      by auto
  next
    assume h: "sr_valid r \<and>
       (\<exists>a \<in> set (db_attempts d).
          ja_id a = sr_attemptId r \<and> ja_student a = user \<and> ja_status a = InProgress) \<and>
       (\<exists>q \<in> set (db_questions d). castObjectId (sr_questionId r) = Some (jq_id q)) \<and>
       sr_timeSpent r \<noteq> NonNumeric"
    then have "find ?P (db_attempts d) \<noteq> None" by (auto simp add: find_None_iff)
    then obtain a where a: "find ?P (db_attempts d) = Some a" by auto
    from h obtain q0 where q0: "q0 \<in> set (db_questions d)"
      and i: "castObjectId (sr_questionId r) = Some (jq_id q0)" by blast
    from q0 have "findQuestion d (jq_id q0) \<noteq> None"
      by (auto simp add: findQuestion_def find_None_iff)
    then obtain q where q: "findQuestion d (jq_id q0) = Some q" by auto
    from h a i q show "\<exists>d' res. saveAnswer d user r = Inr (d', res)"
      by (simp add: saveAnswer_def Let_def)
  qed
next
  assume "sr_valid r \<and>
    \<not> (\<exists>a \<in> set (db_attempts d).
          ja_id a = sr_attemptId r \<and> ja_student a = user \<and> ja_status a = InProgress)"
  then have "sr_valid r" and
    "find (\<lambda>a. ja_id a = sr_attemptId r \<and> ja_student a = user \<and> ja_status a = InProgress)
       (db_attempts d) = None"
    by (auto simp add: find_None_iff)
  then show "saveAnswer d user r = Inl (Failure 404 ''Attempt not found or already submitted'')"
    by (simp add: saveAnswer_def)
next
  assume h: "distinct (map ja_id (db_attempts d)) \<and> saveAnswer d user r = Inr (d1, res1)"
  then have ok: "saveAnswer d user r = Inr (d1, res1)" and ids: "distinct (map ja_id (db_attempts d))"
    by simp_all
  from ok obtain a i q where
    a: "find (\<lambda>a. ja_id a = sr_attemptId r \<and> ja_student a = user \<and> ja_status a = InProgress)
          (db_attempts d) = Some a" and
    d1: "d1 = updateAttempt
            (a\<lparr>ja_answers := upsertAnswer (sr_questionId r) (answerData i q r) (ja_answers a)\<rparr>) d"
    by (rule saveAnswer_Inr_D)
  let ?c = "a\<lparr>ja_answers := upsertAnswer (sr_questionId r) (answerData i q r) (ja_answers a)\<rparr>"
  from a have mem: "a \<in> set (db_attempts d)" by (auto simp add: find_Some_iff)
  have "map ja_status (db_attempts (updateAttempt ?c d)) = map ja_status (db_attempts d)"
  proof (rule updateAttempt_statuses [OF a])
    show "ja_id ?c = ja_id a" by simp
    show "ja_status ?c = ja_status a" by simp
    fix x assume "x \<in> set (db_attempts d)" and "ja_id x = ja_id a"
    with ids mem have "x = a" by (auto dest: distinct_ids_same)
    then show "ja_status x = ja_status a" by simp
  qed
  with d1 show "map ja_status (db_attempts d1) = map ja_status (db_attempts d)" by simp
qed

theorem saveAnswer_succeeds_while_in_progress_witness:
  "(\<exists>d' res. saveAnswer (db_with (exam_js 60) [attempt_js InProgress []]) 1 (request_js 20 ''A'')
               = Inr (d', res) \<and>
              distinct (map ja_id (db_attempts (db_with (exam_js 60) [attempt_js InProgress []]))) \<and>
              map ja_status (db_attempts d') = [InProgress]) \<and>
   sr_valid (request_js 20 ''A'') \<and>
   saveAnswer (db_with (exam_js 60) [attempt_js Submitted []]) 1 (request_js 20 ''A'')
     = Inl (Failure 404 ''Attempt not found or already submitted'')"
proof -
  let ?d = "db_with (exam_js 60) [attempt_js InProgress []]"
  let ?s = "db_with (exam_js 60) [attempt_js Submitted []]"
  let ?r = "request_js 20 ''A''"
  have v: "sr_valid ?r" by (simp add: request_js_def request_text_def)
  have "\<exists>a \<in> set (db_attempts ?d). ja_id a = sr_attemptId ?r \<and> ja_student a = 1 \<and> ja_status a = InProgress"
    by (simp add: db_with_def attempt_js_def newAttempt_def request_js_def request_text_def)
  moreover have "\<exists>q \<in> set (db_questions ?d). castObjectId (sr_questionId ?r) = Some (jq_id q)"
    by (simp add: db_with_def qj_single_def request_js_def request_text_def castObjectId_toString)
  moreover have "sr_timeSpent ?r \<noteq> NonNumeric"
    by (simp add: request_js_def request_text_def)
  ultimately obtain d' res where ok: "saveAnswer ?d 1 ?r = Inr (d', res)"
    using v saveAnswer_succeeds_while_in_progress [of ?d 1 ?r] by blast
  have ids: "distinct (map ja_id (db_attempts ?d))" by (simp add: db_with_def)
  with ok saveAnswer_succeeds_while_in_progress [of ?d 1 ?r d' res]
  have "map ja_status (db_attempts d') = map ja_status (db_attempts ?d)" by blast
  then have st: "map ja_status (db_attempts d') = [InProgress]"
    by (simp add: db_with_def attempt_js_def)
  have "\<not> (\<exists>a \<in> set (db_attempts ?s). ja_id a = sr_attemptId ?r \<and> ja_student a = 1 \<and> ja_status a = InProgress)"
    by (simp add: db_with_def attempt_js_def)
  with v saveAnswer_succeeds_while_in_progress [of ?s 1 ?r]
  have no: "saveAnswer ?s 1 ?r = Inl (Failure 404 ''Attempt not found or already submitted'')"
    by blast
  have "\<exists>d' res. saveAnswer ?d 1 ?r = Inr (d', res) \<and> distinct (map ja_id (db_attempts ?d)) \<and>
          map ja_status (db_attempts d') = [InProgress]"
    using ok ids st by (intro exI [of _ d'] exI [of _ res]) simp
  with v no show ?thesis by simp
qed

subsection \<open>Starting an attempt\<close>

text \<open>
  C4, as the specification states it, fails. Student 1 starts exam 10 twice: the second request
  creates a second attempt instead of returning the first, and both are in progress.
\<close>

theorem second_start_creates_second_attempt:
  "startAttempt (db_with (exam_js 60) []) 1 10 500 ''10.0.0.1'' ''agent'' =
     Inr ((db_with (exam_js 60) [newAttempt 100 1 10 500 ''10.0.0.1'' ''agent''])\<lparr>db_nextId := 101\<rparr>,
          \<lparr>st_attempt = newAttempt 100 1 10 500 ''10.0.0.1'' ''agent'', st_exam = exam_js 60,
           st_timeRemaining = 60\<rparr>) \<and>
   startAttempt
       ((db_with (exam_js 60) [newAttempt 100 1 10 500 ''10.0.0.1'' ''agent''])\<lparr>db_nextId := 101\<rparr>)
       1 10 600 ''10.0.0.1'' ''agent'' =
     Inr ((db_with (exam_js 60) [newAttempt 100 1 10 500 ''10.0.0.1'' ''agent'',
                                 newAttempt 101 1 10 600 ''10.0.0.1'' ''agent''])\<lparr>db_nextId := 102\<rparr>,
          \<lparr>st_attempt = newAttempt 101 1 10 600 ''10.0.0.1'' ''agent'', st_exam = exam_js 60,
           st_timeRemaining = 60\<rparr>) \<and>
   ja_status (newAttempt 100 1 10 500 ''10.0.0.1'' ''agent'') = InProgress \<and>
   ja_status (newAttempt 101 1 10 600 ''10.0.0.1'' ''agent'') = InProgress \<and>
   newAttempt 101 1 10 600 ''10.0.0.1'' ''agent'' \<noteq> newAttempt 100 1 10 500 ''10.0.0.1'' ''agent''"
  by (simp add: startAttempt_def db_with_def exam_js_def findExam_def canUserTakeExam_def
        isAvailable_def attemptCount_def pre_save_Attempt_def newAttempt_def insertAttempt_def
        Let_def)

text \<open>
  C4, amended: \<^verbatim>\<open>startAttempt\<close> is not idempotent and in-progress attempts are not limited.
  Whenever the exam exists and \<^verbatim>\<open>canUserTakeExam\<close> allows the student (the exam is available,
  and the student's submitted and graded attempts are below \<^verbatim>\<open>maxAttempts\<close> or retakes are
  allowed), a start request succeeds, and the same request repeated while the exam is still
  available succeeds again: it creates one more attempt with a new identifier, and both attempts
  of that student at that exam are stored in progress.
\<close>

theorem startAttempt_creates_attempt_each_time:
  assumes e: "findExam d examId = Some e"
      and c: "canUserTakeExam d now e user = None"
      and l: "isAvailable later e"
  shows "\<exists>d1 r1 d2 r2.
           startAttempt d user examId now ip ua = Inr (d1, r1) \<and>
           startAttempt d1 user examId later ip ua = Inr (d2, r2) \<and>
           ja_id (st_attempt r2) \<noteq> ja_id (st_attempt r1) \<and>
           db_attempts d2 = db_attempts d @ [st_attempt r1, st_attempt r2] \<and>
           ja_status (st_attempt r1) = InProgress \<and> ja_status (st_attempt r2) = InProgress \<and>
           ja_student (st_attempt r1) = user \<and> ja_student (st_attempt r2) = user \<and>
           ja_exam (st_attempt r1) = ja_exam (st_attempt r2)"
proof -
  let ?a1 = "newAttempt (db_nextId d) user (je_id e) now ip ua"
  let ?d1 = "insertAttempt ?a1 d"
  let ?r1 = "\<lparr>st_attempt = ?a1, st_exam = e, st_timeRemaining = je_duration e * 60\<rparr>"
  have first: "startAttempt d user examId now ip ua = Inr (?d1, ?r1)"
    using e c by (rule startAttempt_Inr)
  have s1: "ja_status ?a1 = InProgress" by (simp add: newAttempt_def)
  have e1: "findExam ?d1 examId = Some e" by (simp add: findExam_insertAttempt e)
  from c l have "canUserTakeExam d later e user = None" by (rule canUserTakeExam_later)
  then have c1: "canUserTakeExam ?d1 later e user = None"
    by (simp add: canUserTakeExam_insert_InProgress [OF s1])
  let ?a2 = "newAttempt (db_nextId ?d1) user (je_id e) later ip ua"
  let ?d2 = "insertAttempt ?a2 ?d1"
  let ?r2 = "\<lparr>st_attempt = ?a2, st_exam = e, st_timeRemaining = je_duration e * 60\<rparr>"
  have second: "startAttempt ?d1 user examId later ip ua = Inr (?d2, ?r2)"
    using e1 c1 by (rule startAttempt_Inr)
  have "ja_id (st_attempt ?r2) \<noteq> ja_id (st_attempt ?r1)"
    by (simp add: newAttempt_def insertAttempt_def)
  moreover have "db_attempts ?d2 = db_attempts d @ [st_attempt ?r1, st_attempt ?r2]"
    by (simp add: insertAttempt_def)
  moreover have "ja_status (st_attempt ?r1) = InProgress \<and> ja_status (st_attempt ?r2) = InProgress \<and>
           ja_student (st_attempt ?r1) = user \<and> ja_student (st_attempt ?r2) = user \<and>
           ja_exam (st_attempt ?r1) = ja_exam (st_attempt ?r2)"
    by (simp add: newAttempt_def)
  ultimately show ?thesis using first second by blast
qed

theorem startAttempt_creates_attempt_each_time_witness:
  "findExam (db_with (exam_js 60) []) 10 = Some (exam_js 60) \<and>
   canUserTakeExam (db_with (exam_js 60) []) 500 (exam_js 60) 1 = None \<and>
   isAvailable 600 (exam_js 60) \<and>
   (\<exists>d1 r1 d2 r2.
      startAttempt (db_with (exam_js 60) []) 1 10 500 ''10.0.0.1'' ''agent'' = Inr (d1, r1) \<and>
      startAttempt d1 1 10 600 ''10.0.0.1'' ''agent'' = Inr (d2, r2) \<and>
      ja_id (st_attempt r2) \<noteq> ja_id (st_attempt r1) \<and>
      ja_status (st_attempt r1) = InProgress \<and> ja_status (st_attempt r2) = InProgress)"
proof -
  let ?d = "db_with (exam_js 60) []"
  have e: "findExam ?d 10 = Some (exam_js 60)"
    by (simp add: findExam_def db_with_def exam_js_def)
  have c: "canUserTakeExam ?d 500 (exam_js 60) 1 = None"
    by (simp add: canUserTakeExam_def isAvailable_def attemptCount_def db_with_def exam_js_def)
  have l: "isAvailable 600 (exam_js 60)"
    by (simp add: isAvailable_def exam_js_def)
  from startAttempt_creates_attempt_each_time [OF e c l, of "''10.0.0.1''" "''agent''"]
  have "\<exists>d1 r1 d2 r2.
      startAttempt ?d 1 10 500 ''10.0.0.1'' ''agent'' = Inr (d1, r1) \<and>
      startAttempt d1 1 10 600 ''10.0.0.1'' ''agent'' = Inr (d2, r2) \<and>
      ja_id (st_attempt r2) \<noteq> ja_id (st_attempt r1) \<and>
      ja_status (st_attempt r1) = InProgress \<and> ja_status (st_attempt r2) = InProgress"
    by blast
  with e c l show ?thesis by simp
qed

subsection \<open>Saving the same answer twice\<close>

text \<open>
  C9 at a question identifier written with an upper-case letter. Question 26 has the text
  \<^verbatim>\<open>00000000000000000000001a\<close>; the request names it \<^verbatim>\<open>00000000000000000000001A\<close>,
  which the validator and the cast accept. The first call appends the answer. The second call,
  with the same arguments, looks for an answer whose text equals that of the request, finds none
  and appends the same record again: the attempt holds two answers to the question, and a
  submission after the two calls reports the total score 10 where a submission after one call
  reports 5. Named by the lower-case text, the same question is answered once only.
\<close>

theorem saveAnswer_appends_for_upper_case_id:
  "toString 26 = ''00000000000000000000001a'' \<and>
   castObjectId ''00000000000000000000001A'' = Some 26 \<and>
   saveAnswer (db_of 26 27 (exam_js 60) [attempt_js InProgress []]) 1
       (request_text ''00000000000000000000001A'' ''A'') =
     Inr (db_of 26 27 (exam_js 60) [attempt_js InProgress [stored_answer 26 ''A'']], True, 5) \<and>
   saveAnswer (db_of 26 27 (exam_js 60) [attempt_js InProgress [stored_answer 26 ''A'']]) 1
       (request_text ''00000000000000000000001A'' ''A'') =
     Inr (db_of 26 27 (exam_js 60)
            [attempt_js InProgress [stored_answer 26 ''A'', stored_answer 26 ''A'']], True, 5) \<and>
   reportedScore
     (submitAttempt (db_of 26 27 (exam_js 60) [attempt_js InProgress [stored_answer 26 ''A'']])
        1 50 NoNum 90000) = Some 5 \<and>
   reportedScore
     (submitAttempt (db_of 26 27 (exam_js 60)
                       [attempt_js InProgress [stored_answer 26 ''A'', stored_answer 26 ''A'']])
        1 50 NoNum 90000) = Some 10 \<and>
   saveAnswer (db_of 26 27 (exam_js 60) [attempt_js InProgress [stored_answer 26 ''A'']]) 1
       (request_text ''00000000000000000000001a'' ''A'') =
     Inr (db_of 26 27 (exam_js 60) [attempt_js InProgress [stored_answer 26 ''A'']], True, 5)"
proof -
  note defs = db_of_def exam_js_def attempt_js_def newAttempt_def request_text_def request_js_def
    saveAnswer_def findQuestion_def qj_single_def gradeAnswer_def validateAnswer_def
    upsertAnswer_def answerData_def stored_answer_def pre_save_Attempt_def updateAttempt_def
  have hex: "toString 26 = ''00000000000000000000001a''"
    by code_simp
  have upper: "castObjectId ''00000000000000000000001A'' = Some 26"
    by code_simp
  have lower: "castObjectId ''00000000000000000000001a'' = Some 26"
    by code_simp
  have first: "saveAnswer (db_of 26 27 (exam_js 60) [attempt_js InProgress []]) 1
       (request_text ''00000000000000000000001A'' ''A'') =
     Inr (db_of 26 27 (exam_js 60) [attempt_js InProgress [stored_answer 26 ''A'']], True, 5)"
    by (simp add: defs upper)
  have second: "saveAnswer (db_of 26 27 (exam_js 60) [attempt_js InProgress [stored_answer 26 ''A'']]) 1
       (request_text ''00000000000000000000001A'' ''A'') =
     Inr (db_of 26 27 (exam_js 60)
            [attempt_js InProgress [stored_answer 26 ''A'', stored_answer 26 ''A'']], True, 5)"
    by (simp add: defs upper hex)
  have once: "reportedScore
     (submitAttempt (db_of 26 27 (exam_js 60) [attempt_js InProgress [stored_answer 26 ''A'']])
        1 50 NoNum 90000) = Some 5"
    by code_simp
  have twice: "reportedScore
     (submitAttempt (db_of 26 27 (exam_js 60)
                       [attempt_js InProgress [stored_answer 26 ''A'', stored_answer 26 ''A'']])
        1 50 NoNum 90000) = Some 10"
    by code_simp
  have canonical: "saveAnswer (db_of 26 27 (exam_js 60) [attempt_js InProgress [stored_answer 26 ''A'']]) 1
       (request_text ''00000000000000000000001a'' ''A'') =
     Inr (db_of 26 27 (exam_js 60) [attempt_js InProgress [stored_answer 26 ''A'']], True, 5)"
    by (simp add: defs lower hex)
  from hex upper first second once twice canonical show ?thesis
    by (intro conjI)
qed

subsection \<open>What the submit route stores\<close>

text \<open>
  The route assigns its figures and saves; the pre-save hook of the attempt then runs
  \<^verbatim>\<open>calculateScores\<close> when there are answers. The route has populated the exam but not the
  questions of the answers, so the hook finds no points, and the attempt is stored with the
  maximal score 0, the percentage 0 and the verdict of percentage 0 (60 standing in for a pass
  mark of 0), while the answer of the route reports the figures it assigned itself.
\<close>

lemma foldl_add_nothing: "foldl (\<lambda>m ans. m) z xs = z"
  by (induction xs arbitrary: z) simp_all

lemma calculateScores_unpopulated:
  "ja_maxPossibleScore (calculateScores pe (\<lambda>_. None) a) = 0"
  "ja_percentage (calculateScores pe (\<lambda>_. None) a) = Some 0"
  "ja_passed (calculateScores (Some e) (\<lambda>_. None) a) = (0 \<ge> or_num (je_passMark e) 60)"
  by (simp_all add: calculateScores_def Let_def foldl_add_nothing)

lemma submitAttempt_stored:
  assumes ok: "submitAttempt d user attemptId timeRemaining now = Inr (d', resp)"
      and answered: "ja_answers (sb_attempt resp) \<noteq> []"
  shows "ja_maxPossibleScore (sb_attempt resp) = 0 \<and> ja_percentage (sb_attempt resp) = Some 0 \<and>
         (\<exists>attempt e.
            find (\<lambda>a. ja_id a = attemptId \<and> ja_student a = user) (db_attempts d) = Some attempt \<and>
            findExam d (ja_exam attempt) = Some e \<and>
            ja_passed (sb_attempt resp) = (0 \<ge> or_num (je_passMark e) 60))"
proof -
  let ?P = "\<lambda>a. ja_id a = attemptId \<and> ja_student a = user"
  obtain attempt where a: "find ?P (db_attempts d) = Some attempt"
    using ok by (cases "find ?P (db_attempts d)") (simp_all add: submitAttempt_def)
  have st: "ja_status attempt = InProgress"
    using ok a by (cases "ja_status attempt = InProgress") (simp_all add: submitAttempt_def)
  obtain e where e: "findExam d (ja_exam attempt) = Some e"
    using ok a st by (cases "findExam d (ja_exam attempt)") (simp_all add: submitAttempt_def)
  from ok a st e obtain changed where
    s: "sb_attempt resp = pre_save_Attempt (Some e) (\<lambda>_. None) changed" and
    c: "ja_status changed \<noteq> InProgress"
    by (auto simp add: submitAttempt_def Let_def split: if_splits)
  from answered s have "ja_answers changed \<noteq> []" by (simp add: pre_save_Attempt_answers)
  with s c have "sb_attempt resp = calculateScores (Some e) (\<lambda>_. None) changed"
    by (simp add: pre_save_Attempt_def)
  then have "ja_maxPossibleScore (sb_attempt resp) = 0" and "ja_percentage (sb_attempt resp) = Some 0"
    and "ja_passed (sb_attempt resp) = (0 \<ge> or_num (je_passMark e) 60)"
    by (simp_all add: calculateScores_unpopulated)
  with a e show ?thesis by blast
qed

subsection \<open>The verdict\<close>

text \<open>
  C1 at two attempts with half of the marks. The specification's verdict is (percentage \<open>\<ge>\<close>
  pass mark) for the pass mark of the exam. First, an \<^verbatim>\<open>ExamAttempt\<close> with 5 of 10 marks at
  an exam whose pass mark is 60: no exam document is attached to it, so the hook compares with
  50 and stores the attempt as passed with the percentage 50. Second, an \<^verbatim>\<open>Attempt\<close> with
  one right answer of two at an exam whose pass mark is 40, handed to the submit route: the
  route computes 50 percent and answers that the attempt passed, but the pre-save hook recomputes
  the figures without the points of the questions and the attempt is stored with the percentage 0
  and as failed.
\<close>

theorem stored_verdict_ignores_pass_mark:
  "ex_passMark (exam_with_passMark 60) = 60 \<and>
   ea_examId (ea_with [5] 10 0 0 False) = ex_id (exam_with_passMark 60) \<and>
   ea_percentage (pre_save None 1000 (ea_with [5] 10 0 0 False)) = 50 \<and>
   ea_passed (pre_save None 1000 (ea_with [5] 10 0 0 False)) = True \<and>
   je_passMark (exam_js 40) = 40 \<and>
   reportedScore
     (submitAttempt (db_of 20 21 (exam_js 40) [attempt_js InProgress [stored_answer 20 ''A'']])
        1 50 NoNum 90000) = Some 5 \<and>
   reportedVerdict
     (submitAttempt (db_of 20 21 (exam_js 40) [attempt_js InProgress [stored_answer 20 ''A'']])
        1 50 NoNum 90000) = Some True \<and>
   storedVerdicts
     (submitAttempt (db_of 20 21 (exam_js 40) [attempt_js InProgress [stored_answer 20 ''A'']])
        1 50 NoNum 90000) = Some [(Some 0, False)]"
proof -
  have mark: "ex_passMark (exam_with_passMark 60) = 60"
    by (simp add: exam_with_passMark_def)
  have same: "ea_examId (ea_with [5] 10 0 0 False) = ex_id (exam_with_passMark 60)"
    by (simp add: ea_with_def exam_with_passMark_def)
  have percentage: "ea_percentage (pre_save None 1000 (ea_with [5] 10 0 0 False)) = 50"
    by code_simp
  have passed: "ea_passed (pre_save None 1000 (ea_with [5] 10 0 0 False)) = True"
    by code_simp
  have markJ: "je_passMark (exam_js 40) = 40"
    by (simp add: exam_js_def)
  have score: "reportedScore
     (submitAttempt (db_of 20 21 (exam_js 40) [attempt_js InProgress [stored_answer 20 ''A'']])
        1 50 NoNum 90000) = Some 5"
    by code_simp
  have reported: "reportedVerdict
     (submitAttempt (db_of 20 21 (exam_js 40) [attempt_js InProgress [stored_answer 20 ''A'']])
        1 50 NoNum 90000) = Some True"
    by code_simp
  have stored: "storedVerdicts
     (submitAttempt (db_of 20 21 (exam_js 40) [attempt_js InProgress [stored_answer 20 ''A'']])
        1 50 NoNum 90000) = Some [(Some 0, False)]"
    by code_simp
  from mark same percentage passed markJ score reported stored show ?thesis
    by (intro conjI)
qed

end
